theory Spec2Isabelle
  imports Main
begin

section \<open>Text as Python sees it\<close>

text \<open>
  \<^verbatim>\<open>run.py\<close> drives a LaTeX build: it runs \<^verbatim>\<open>latexmk\<close>, scans the \<^verbatim>\<open>.tex\<close> sources
  with regular expressions and classifies the lines of the compiler log. The embedding
  below follows the script function by function.

  A Python \<^verbatim>\<open>str\<close> is modelled as a \<open>string\<close>, one \<open>char\<close> per code point; the model
  therefore covers text whose code points are below 256. On that range the character
  tests below are those of CPython: \<^verbatim>\<open>str.isspace\<close>, the classes \<^verbatim>\<open>\d\<close> and \<^verbatim>\<open>\w\<close> of
  \<^verbatim>\<open>re\<close> for \<^verbatim>\<open>str\<close> patterns, and the simple lower-casing that \<^verbatim>\<open>re.IGNORECASE\<close> compares
  with.
\<close>

definition bs :: char where
  "bs = CHR 0x5C"

definition sq :: char where
  "sq = CHR 0x27"

definition nl :: char where
  "nl = CHR 0x0A"

definition py_lower :: "char \<Rightarrow> char" where
  "py_lower c = (let n = of_char c :: nat in
     if (65 \<le> n \<and> n \<le> 90) \<or> (192 \<le> n \<and> n \<le> 222 \<and> n \<noteq> 215)
     then char_of (n + 32) else c)"

definition py_isspace :: "char \<Rightarrow> bool" where
  "py_isspace c = (let n = of_char c :: nat in
     (9 \<le> n \<and> n \<le> 13) \<or> (28 \<le> n \<and> n \<le> 32) \<or> n = 133 \<or> n = 160)"

definition is_digit :: "char \<Rightarrow> bool" where
  "is_digit c = (let n = of_char c :: nat in 48 \<le> n \<and> n \<le> 57)"

definition is_word :: "char \<Rightarrow> bool" where
  "is_word c = (let n = of_char c :: nat in
     (48 \<le> n \<and> n \<le> 57) \<or> (65 \<le> n \<and> n \<le> 90) \<or> n = 95 \<or> (97 \<le> n \<and> n \<le> 122)
     \<or> n = 170 \<or> n = 178 \<or> n = 179 \<or> n = 181 \<or> n = 185 \<or> n = 186
     \<or> (188 \<le> n \<and> n \<le> 190) \<or> (192 \<le> n \<and> n \<noteq> 215 \<and> n \<noteq> 247))"

text \<open>\<^verbatim>\<open>s.strip()\<close>: leading and trailing whitespace removed.\<close>

definition strip :: "string \<Rightarrow> string" where
  "strip s = rev (dropWhile py_isspace (rev (dropWhile py_isspace s)))"

text \<open>\<^verbatim>\<open>s.split('\n')\<close>: the empty string gives one empty line, and a final newline
  gives a final empty line.\<close>

fun split_nl :: "string \<Rightarrow> string list" where
  "split_nl [] = [[]]"
| "split_nl (c # cs) =
     (if c = nl then [] # split_nl cs
      else (case split_nl cs of [] \<Rightarrow> [[c]] | l # ls \<Rightarrow> (c # l) # ls))"

text \<open>\<^verbatim>\<open>enumerate(xs, 1)\<close>.\<close>

fun enumerate_from :: "nat \<Rightarrow> 'a list \<Rightarrow> (nat \<times> 'a) list" where
  "enumerate_from n [] = []"
| "enumerate_from n (x # xs) = (n, x) # enumerate_from (Suc n) xs"

section \<open>The fragment of Python's \<^verbatim>\<open>re\<close> the script uses\<close>

text \<open>
  The patterns of the script use literals, \<^verbatim>\<open>.\<close>, \<^verbatim>\<open>\w\<close>, \<^verbatim>\<open>\d\<close>, negated sets
  \<^verbatim>\<open>[^...]\<close>, concatenation, \<^verbatim>\<open>|\<close>, greedy \<^verbatim>\<open>*\<close> \<^verbatim>\<open>+\<close> \<^verbatim>\<open>?\<close>, the lazy \<^verbatim>\<open>*?\<close>, one capturing
  group and the negative lookahead \<^verbatim>\<open>(?!...)\<close>, under the flags \<^verbatim>\<open>IGNORECASE\<close> and
  \<^verbatim>\<open>DOTALL\<close>. \<open>ends fl r s\<close> lists, in the order in which a backtracking matcher tries
  them, the ways \<open>r\<close> matches a prefix of \<open>s\<close>: the length consumed and the span of
  group 1 (relative to the start of the match) when the group took part.
\<close>

datatype cclass = WordCh | DigitCh | NoneOf "char list"

datatype regex =
    Eps
  | Lit char
  | Dot
  | Cls cclass
  | Seq regex regex
  | Alt regex regex
  | Star regex
  | Lazy regex
  | Group regex
  | NotAhead regex

record flags =
  ignorecase :: bool
  dotall :: bool

type_synonym span = "nat \<times> nat"

type_synonym mres = "nat \<times> span option"

definition lit_match :: "flags \<Rightarrow> char \<Rightarrow> char \<Rightarrow> bool" where
  "lit_match fl c d = (if ignorecase fl then py_lower d = py_lower c else d = c)"

fun cls_match :: "flags \<Rightarrow> cclass \<Rightarrow> char \<Rightarrow> bool" where
  "cls_match fl WordCh d = is_word d"
| "cls_match fl DigitCh d = is_digit d"
| "cls_match fl (NoneOf cs) d = (\<not> list_ex (\<lambda>c. lit_match fl c d) cs)"

definition single_if :: "bool \<Rightarrow> mres list" where
  "single_if b = (if b then [(1, None)] else [])"

definition after :: "nat \<Rightarrow> span option \<Rightarrow> mres \<Rightarrow> mres" where
  "after n g r = (case r of (m, h) \<Rightarrow>
     (n + m, case h of Some (a, b) \<Rightarrow> Some (n + a, n + b) | None \<Rightarrow> g))"

function ends :: "flags \<Rightarrow> regex \<Rightarrow> string \<Rightarrow> mres list" where
  "ends fl Eps s = [(0, None)]"
| "ends fl (Lit c) s = (case s of [] \<Rightarrow> [] | d # _ \<Rightarrow> single_if (lit_match fl c d))"
| "ends fl Dot s = (case s of [] \<Rightarrow> [] | d # _ \<Rightarrow> single_if (dotall fl \<or> d \<noteq> nl))"
| "ends fl (Cls k) s = (case s of [] \<Rightarrow> [] | d # _ \<Rightarrow> single_if (cls_match fl k d))"
| "ends fl (Seq a b) s =
     concat (map (\<lambda>r. map (after (fst r) (snd r)) (ends fl b (drop (fst r) s))) (ends fl a s))"
| "ends fl (Alt a b) s = ends fl a s @ ends fl b s"
| "ends fl (Star a) s =
     concat (map (\<lambda>r. if 0 < fst r \<and> fst r \<le> length s
                       then map (after (fst r) (snd r)) (ends fl (Star a) (drop (fst r) s))
                       else []) (ends fl a s)) @ [(0, None)]"
| "ends fl (Lazy a) s =
     (0, None) # concat (map (\<lambda>r. if 0 < fst r \<and> fst r \<le> length s
                       then map (after (fst r) (snd r)) (ends fl (Lazy a) (drop (fst r) s))
                       else []) (ends fl a s))"
| "ends fl (Group a) s = map (\<lambda>r. (fst r, Some (0, fst r))) (ends fl a s)"
| "ends fl (NotAhead a) s = (if ends fl a s = [] then [(0, None)] else [])"
  by pat_completeness auto
termination
  by (relation "inv_image (less_than <*lex*> less_than) (\<lambda>(fl, r, s). (length s, size r))") auto

definition cat :: "regex list \<Rightarrow> regex" where
  "cat rs = foldr Seq rs Eps"

definition lits :: "string \<Rightarrow> regex" where
  "lits s = cat (map Lit s)"

definition many1 :: "regex \<Rightarrow> regex" where
  "many1 r = Seq r (Star r)"

definition optional :: "regex \<Rightarrow> regex" where
  "optional r = Alt r Eps"

text \<open>
  A match is its start offset, its length and the span of group 1. \<open>scan\<close> is the loop
  of \<^verbatim>\<open>re.finditer\<close> and \<^verbatim>\<open>re.findall\<close>: the leftmost match, its first alternative in
  backtracking order, then the search resumes where the match ended. No pattern of the
  script matches the empty string; after an empty match the scan moves one character on.
\<close>

type_synonym pmatch = "nat \<times> nat \<times> span option"

function scan :: "flags \<Rightarrow> regex \<Rightarrow> string \<Rightarrow> nat \<Rightarrow> pmatch list" where
  "scan fl r [] off = (case ends fl r [] of [] \<Rightarrow> [] | (n, g) # _ \<Rightarrow> [(off, n, g)])"
| "scan fl r (c # cs) off =
     (case ends fl r (c # cs) of
        [] \<Rightarrow> scan fl r cs (Suc off)
      | (n, g) # _ \<Rightarrow>
          (off, n, g) # (if n = 0 then scan fl r cs (Suc off)
                         else scan fl r (drop n (c # cs)) (off + n)))"
  by pat_completeness auto
termination
  by (relation "measure (\<lambda>(fl, r, s, off). length s)") auto

definition finditer :: "flags \<Rightarrow> regex \<Rightarrow> string \<Rightarrow> pmatch list" where
  "finditer fl r s = scan fl r s 0"

text \<open>\<^verbatim>\<open>re.search(p, s, flags)\<close> used as a truth value.\<close>

definition search :: "flags \<Rightarrow> regex \<Rightarrow> string \<Rightarrow> bool" where
  "search fl r s = (finditer fl r s \<noteq> [])"

text \<open>\<^verbatim>\<open>match.group(1) if match.groups() else match.group(0)\<close>; it is also what
  \<^verbatim>\<open>re.findall\<close> returns for a pattern with at most one group.\<close>

definition group_or_whole :: "string \<Rightarrow> pmatch \<Rightarrow> string" where
  "group_or_whole s m = (case m of (off, n, g) \<Rightarrow>
     (case g of Some (a, b) \<Rightarrow> take (b - a) (drop (off + a) s)
              | None \<Rightarrow> take n (drop off s)))"

definition findall :: "flags \<Rightarrow> regex \<Rightarrow> string \<Rightarrow> string list" where
  "findall fl r s = map (group_or_whole s) (finditer fl r s)"

definition NOFLAGS :: flags where
  "NOFLAGS = \<lparr>ignorecase = False, dotall = False\<rparr>"

definition IGNORECASE :: flags where
  "IGNORECASE = \<lparr>ignorecase = True, dotall = False\<rparr>"

definition DOTALL :: flags where
  "DOTALL = \<lparr>ignorecase = False, dotall = True\<rparr>"

section \<open>Pattern extractor\<close>

text \<open>
  A source file is what \<^verbatim>\<open>open(...).read()\<close> gives for it: its text, or the exception
  raised (\<^verbatim>\<open>errors='ignore'\<close> rules out decoding errors, so a failure is one of opening
  or reading). The tree is what \<^verbatim>\<open>list(Path('.').rglob('*.tex'))\<close> gives: the files in
  enumeration order, or the exception raised.
\<close>

datatype exn = OSError | FileNotFoundError | TimeoutExpired | KeyboardInterrupt
  | UnicodeDecodeError | OtherException

type_synonym tex_file = "exn + string"

type_synonym tex_tree = "exn + tex_file list"

subsection \<open>\<^verbatim>\<open>count_equations_detailed\<close>\<close>

definition equation_types :: "(string \<times> nat) list" where
  "equation_types =
     [(''equation'', 0), (''equation*'', 0), (''align'', 0), (''align*'', 0),
      (''gather'', 0), (''gather*'', 0), (''multline'', 0), (''multline*'', 0)]"

text \<open>
  The pattern built for one key. With a star in the key it is
  \<^verbatim>\<open>f'\\\\begin{{{re.escape(env_type)}}}'\<close>, where \<^verbatim>\<open>re.escape\<close> makes every character of
  the key a literal; without, it is \<^verbatim>\<open>f'\\\\begin{{{base_type}}}(?!\\*)'\<close>, and the keys are
  letters only. The braces are literals for \<^verbatim>\<open>re\<close>, as no repetition count stands
  between them.
\<close>

definition env_pattern :: "string \<Rightarrow> regex" where
  "env_pattern env_type =
     (if CHR ''*'' \<in> set env_type
      then cat [Lit bs, lits ''begin{'', lits env_type, Lit CHR ''}'']
      else cat [Lit bs, lits ''begin{'', lits env_type, Lit CHR ''}'', NotAhead (Lit CHR ''*'')])"

text \<open>The inner \<^verbatim>\<open>for env_type in equation_types.keys()\<close> on the text of one file.\<close>

definition count_in_content :: "string \<Rightarrow> (string \<times> nat) list \<Rightarrow> (string \<times> nat) list" where
  "count_in_content content types =
     map (\<lambda>(env_type, n). (env_type, n + length (findall NOFLAGS (env_pattern env_type) content)))
       types"

text \<open>The loop over the files; \<^verbatim>\<open>except Exception: continue\<close> skips a file that failed.\<close>

fun equation_loop :: "tex_file list \<Rightarrow> (string \<times> nat) list \<Rightarrow> (string \<times> nat) list" where
  "equation_loop [] types = types"
| "equation_loop (Inl e # fs) types = equation_loop fs types"
| "equation_loop (Inr content # fs) types = equation_loop fs (count_in_content content types)"

definition count_equations_detailed :: "tex_tree \<Rightarrow> nat" where
  "count_equations_detailed tree =
     (case tree of
        Inl e \<Rightarrow> 0
      | Inr tex_files \<Rightarrow> sum_list (map snd (equation_loop tex_files equation_types)))"

subsection \<open>\<^verbatim>\<open>count_figures_and_tables\<close>\<close>

record counts =
  figures_with_subfigures :: nat
  figures_without_subfigures :: nat
  total_subfigures :: nat
  tables_with_subtables :: nat
  tables_without_subtables :: nat
  total_subtables :: nat
  plots_with_subplots :: nat
  plots_without_subplots :: nat
  total_subplots :: nat
  tikzpictures_with_plots :: nat
  tikzpictures_without_plots :: nat
  pgfplots_with_subplots :: nat
  pgfplots_without_subplots :: nat
  total_addplots :: nat
  standalone_graphics :: nat

definition zero_counts :: counts where
  "zero_counts = \<lparr>figures_with_subfigures = 0, figures_without_subfigures = 0,
     total_subfigures = 0, tables_with_subtables = 0, tables_without_subtables = 0,
     total_subtables = 0, plots_with_subplots = 0, plots_without_subplots = 0,
     total_subplots = 0, tikzpictures_with_plots = 0, tikzpictures_without_plots = 0,
     pgfplots_with_subplots = 0, pgfplots_without_subplots = 0, total_addplots = 0,
     standalone_graphics = 0\<rparr>"

text \<open>\<^verbatim>\<open>\\begin\{env\}(.*?)\\end\{env\}\<close>, used with \<^verbatim>\<open>re.DOTALL\<close>, and \<^verbatim>\<open>\\begin\{env\}\<close>.\<close>

definition begin_pattern :: "string \<Rightarrow> regex" where
  "begin_pattern env = cat [Lit bs, lits ''begin{'', lits env, Lit CHR ''}'']"

definition block_pattern :: "string \<Rightarrow> regex" where
  "block_pattern env =
     cat [Lit bs, lits ''begin{'', lits env, Lit CHR ''}'', Group (Lazy Dot),
          Lit bs, lits ''end{'', lits env, Lit CHR ''}'']"

definition figure_pattern :: regex where
  "figure_pattern = block_pattern ''figure''"

definition figure_star_pattern :: regex where
  "figure_star_pattern = block_pattern ''figure*''"

definition table_pattern :: regex where
  "table_pattern = block_pattern ''table''"

definition table_star_pattern :: regex where
  "table_star_pattern = block_pattern ''table*''"

definition plot_pattern :: regex where
  "plot_pattern = block_pattern ''plot''"

definition tikz_pattern :: regex where
  "tikz_pattern = block_pattern ''tikzpicture''"

definition axis_pattern :: regex where
  "axis_pattern = block_pattern ''axis''"

text \<open>\<^verbatim>\<open>\\addplot|\\plot(?!s)\<close> and \<^verbatim>\<open>\\addplot\<close>.\<close>

definition tikz_plot_pattern :: regex where
  "tikz_plot_pattern =
     Alt (cat [Lit bs, lits ''addplot''])
         (cat [Lit bs, lits ''plot'', NotAhead (Lit CHR ''s'')])"

definition addplot_pattern :: regex where
  "addplot_pattern = cat [Lit bs, lits ''addplot'']"

text \<open>\<^verbatim>\<open>\\includegraphics(?:\[[^\]]*\])?\{[^}]+\}\<close>.\<close>

definition includegraphics_pattern :: regex where
  "includegraphics_pattern =
     cat [Lit bs, lits ''includegraphics'',
          optional (cat [Lit CHR ''['', Star (Cls (NoneOf '']'')), Lit CHR '']'']),
          Lit CHR ''{'', many1 (Cls (NoneOf ''}'')), Lit CHR ''}'']"

text \<open>
  The loop that the script writes once per container kind: for each inner text, the
  nested markers are counted; a positive count adds one to the first tally and the
  count to the third, a zero count adds one to the second tally. The triple is
  (with, without, nested total).
\<close>

fun tally :: "regex \<Rightarrow> string list \<Rightarrow> nat \<times> nat \<times> nat \<Rightarrow> nat \<times> nat \<times> nat" where
  "tally sub [] t = t"
| "tally sub (inner # rest) (w, wo, tot) =
     (let sub_count = length (findall NOFLAGS sub inner) in
      if 0 < sub_count then tally sub rest (w + 1, wo, tot + sub_count)
      else tally sub rest (w, wo + 1, tot))"

text \<open>The body of the \<^verbatim>\<open>try\<close> for one file, in the order of the script.\<close>

definition scan_content :: "string \<Rightarrow> counts \<Rightarrow> counts" where
  "scan_content content c =
     (let (fw, fwo, sf) = tally (begin_pattern ''subfigure'') (findall DOTALL figure_pattern content)
            (figures_with_subfigures c, figures_without_subfigures c, total_subfigures c);
          (fw, fwo, sf) = tally (begin_pattern ''subfigure'')
            (findall DOTALL figure_star_pattern content) (fw, fwo, sf);
          (tw, two, st) = tally (begin_pattern ''subtable'') (findall DOTALL table_pattern content)
            (tables_with_subtables c, tables_without_subtables c, total_subtables c);
          (tw, two, st) = tally (begin_pattern ''subtable'')
            (findall DOTALL table_star_pattern content) (tw, two, st);
          (pw, pwo, sp) = tally (begin_pattern ''subplot'') (findall DOTALL plot_pattern content)
            (plots_with_subplots c, plots_without_subplots c, total_subplots c);
          (kw, kwo, ap) = tally tikz_plot_pattern (findall DOTALL tikz_pattern content)
            (tikzpictures_with_plots c, tikzpictures_without_plots c, total_addplots c);
          (aw, awo, ap) = tally addplot_pattern (findall DOTALL axis_pattern content)
            (pgfplots_with_subplots c, pgfplots_without_subplots c, ap);
          all_includegraphics = length (findall NOFLAGS includegraphics_pattern content)
      in \<lparr>figures_with_subfigures = fw, figures_without_subfigures = fwo,
          total_subfigures = sf, tables_with_subtables = tw, tables_without_subtables = two,
          total_subtables = st, plots_with_subplots = pw, plots_without_subplots = pwo,
          total_subplots = sp, tikzpictures_with_plots = kw, tikzpictures_without_plots = kwo,
          pgfplots_with_subplots = aw, pgfplots_without_subplots = awo, total_addplots = ap,
          standalone_graphics = standalone_graphics c + all_includegraphics\<rparr>)"

fun figure_loop :: "tex_file list \<Rightarrow> counts \<Rightarrow> counts" where
  "figure_loop [] c = c"
| "figure_loop (Inl e # fs) c = figure_loop fs c"
| "figure_loop (Inr content # fs) c = figure_loop fs (scan_content content c)"

text \<open>The dictionary the function returns.\<close>

record summary =
  figures :: nat
  s_figures_with_subfigures :: nat
  s_total_subfigures :: nat
  tables :: nat
  s_tables_with_subtables :: nat
  s_total_subtables :: nat
  custom_plots :: nat
  s_plots_with_subplots :: nat
  s_total_subplots :: nat
  plot_containers :: nat
  tikz_pgf_plots :: nat
  total_plot_commands :: nat
  graphics :: nat

definition zero_summary :: summary where
  "zero_summary = \<lparr>figures = 0, s_figures_with_subfigures = 0, s_total_subfigures = 0,
     tables = 0, s_tables_with_subtables = 0, s_total_subtables = 0, custom_plots = 0,
     s_plots_with_subplots = 0, s_total_subplots = 0, plot_containers = 0,
     tikz_pgf_plots = 0, total_plot_commands = 0, graphics = 0\<rparr>"

definition summarise :: "counts \<Rightarrow> summary" where
  "summarise c =
     (let total_figures = figures_with_subfigures c + figures_without_subfigures c;
          total_tables = tables_with_subtables c + tables_without_subtables c;
          total_custom_plots = plots_with_subplots c + plots_without_subplots c;
          total_tikz_pgf_plots = tikzpictures_with_plots c + pgfplots_with_subplots c;
          total_plot_containers =
            tikzpictures_with_plots c + tikzpictures_without_plots c +
            pgfplots_with_subplots c + pgfplots_without_subplots c + total_custom_plots
      in \<lparr>figures = total_figures,
          s_figures_with_subfigures = figures_with_subfigures c,
          s_total_subfigures = total_subfigures c,
          tables = total_tables,
          s_tables_with_subtables = tables_with_subtables c,
          s_total_subtables = total_subtables c,
          custom_plots = total_custom_plots,
          s_plots_with_subplots = plots_with_subplots c,
          s_total_subplots = total_subplots c,
          plot_containers = total_plot_containers,
          tikz_pgf_plots = total_tikz_pgf_plots,
          total_plot_commands = total_addplots c,
          graphics = standalone_graphics c\<rparr>)"

text \<open>The tallies after the loop, and the function itself: the outer \<^verbatim>\<open>except\<close>
  returns the all-zero dictionary.\<close>

definition tree_counts :: "tex_file list \<Rightarrow> counts" where
  "tree_counts tex_files = figure_loop tex_files zero_counts"

definition count_figures_and_tables :: "tex_tree \<Rightarrow> summary" where
  "count_figures_and_tables tree =
     (case tree of
        Inl e \<Rightarrow> zero_summary
      | Inr tex_files \<Rightarrow> summarise (tree_counts tex_files))"

section \<open>Log analyzer\<close>

subsection \<open>\<^verbatim>\<open>parse_warnings\<close>\<close>

text \<open>The dictionaries appended to \<^verbatim>\<open>warnings\<close> and \<^verbatim>\<open>auxiliary_info\<close>.\<close>

record diag =
  line :: nat
  msg_text :: string
  full_line :: string

text \<open>The three pattern lists, in the order of the script.\<close>

definition reference_like :: "string \<Rightarrow> regex" where
  "reference_like kind =
     cat [lits ''LaTeX Warning: '', lits kind, lits '' `'', Group (many1 Dot), Lit sq,
          lits '' on page '', many1 (Cls DigitCh), lits '' undefined'']"

definition package_warning :: "string \<Rightarrow> regex" where
  "package_warning name =
     cat [lits ''Package '', lits name, lits '' Warning: '', Group (many1 Dot)]"

definition warning_patterns :: "regex list" where
  "warning_patterns =
     [cat [lits ''LaTeX Warning: '', Group (many1 Dot)],
      cat [lits ''Package '', many1 (Cls WordCh), lits '' Warning: '', Group (many1 Dot)],
      cat [lits ''Warning--'', Group (many1 Dot)],
      reference_like ''Reference'',
      reference_like ''Citation'',
      package_warning ''hyperref'',
      package_warning ''babel'',
      package_warning ''inputenc'',
      package_warning ''fancyhdr'',
      package_warning ''geometry'']"

definition box_pattern :: "string \<Rightarrow> string \<Rightarrow> regex" where
  "box_pattern fullness box =
     Group (cat [lits fullness, Lit CHR '' '', Lit bs, lits box, many1 Dot])"

definition auxiliary_patterns :: "regex list" where
  "auxiliary_patterns =
     [box_pattern ''Overfull'' ''hbox'',
      box_pattern ''Underfull'' ''hbox'',
      box_pattern ''Overfull'' ''vbox'',
      box_pattern ''Underfull'' ''vbox'']"

definition exclude_patterns :: "regex list" where
  "exclude_patterns =
     [lits ''LaTeX Font Info:'',
      cat [lits ''Package '', Star Dot, lits '' Info:''],
      cat [lits ''File: '', Star Dot, lits '' Graphic file''],
      lits ''Document Class:'',
      cat [Lit bs, lits ''openout'', many1 (Cls DigitCh)],
      lits ''For additional information on amsmath'']"

definition should_exclude :: "string \<Rightarrow> bool" where
  "should_exclude line_text =
     list_ex (\<lambda>exclude_pattern. search IGNORECASE exclude_pattern line_text) exclude_patterns"

text \<open>
  \<^verbatim>\<open>for pattern in patterns: for match in re.finditer(pattern, line, re.IGNORECASE)\<close>,
  appending one dictionary per match. Every pattern of the two lists has a group that
  takes part in each of its matches.
\<close>

definition records_of :: "nat \<Rightarrow> string \<Rightarrow> regex list \<Rightarrow> diag list" where
  "records_of line_num line_text patterns =
     concat (map (\<lambda>pattern.
        map (\<lambda>m. \<lparr>line = line_num, msg_text = strip (group_or_whole line_text m),
                   full_line = line_text\<rparr>)
          (finditer IGNORECASE pattern line_text)) patterns)"

text \<open>The loop over the numbered lines, carrying the two lists.\<close>

fun parse_lines :: "(nat \<times> string) list \<Rightarrow> diag list \<times> diag list \<Rightarrow> diag list \<times> diag list" where
  "parse_lines [] acc = acc"
| "parse_lines ((line_num, raw) # rest) (warnings, auxiliary_info) =
     (let line_text = strip raw in
      if should_exclude line_text then parse_lines rest (warnings, auxiliary_info)
      else
        (let found = records_of line_num line_text auxiliary_patterns;
             is_auxiliary = (found \<noteq> [])
         in if \<not> is_auxiliary
            then parse_lines rest
                   (warnings @ records_of line_num line_text warning_patterns,
                    auxiliary_info @ found)
            else parse_lines rest (warnings, auxiliary_info @ found)))"

definition parse_warnings :: "string \<Rightarrow> diag list \<times> diag list" where
  "parse_warnings log_content =
     parse_lines (enumerate_from 1 (split_nl log_content)) ([], [])"

subsection \<open>\<^verbatim>\<open>count_and_display_warnings\<close>\<close>

text \<open>
  \<^verbatim>\<open>output/main.log\<close> at analysis time: absent, present but failing to open or read, or
  present with its text. The function prints a report and returns the two lengths; the
  report does not change what is returned and is left out.
\<close>

datatype log_file = LogAbsent | LogUnreadable exn | LogContent string

text \<open>The body of the \<^verbatim>\<open>try\<close>: an exception, or the pair returned.\<close>

definition analyse_log :: "log_file \<Rightarrow> exn + nat \<times> nat" where
  "analyse_log lf =
     (case lf of
        LogAbsent \<Rightarrow> Inr (0, 0)
      | LogUnreadable e \<Rightarrow> Inl e
      | LogContent log_content \<Rightarrow>
          (let (warnings, auxiliary_info) = parse_warnings log_content
           in Inr (length warnings, length auxiliary_info)))"

definition count_and_display_warnings :: "log_file \<Rightarrow> nat \<times> nat" where
  "count_and_display_warnings lf =
     (case analyse_log lf of Inl e \<Rightarrow> (0, 0) | Inr counted \<Rightarrow> counted)"

section \<open>Process supervisor\<close>

text \<open>
  The pipes are opened with \<^verbatim>\<open>text=True\<close>: what the process wrote to a pipe is decoded
  with the codec of the locale, strictly. The bytes captured from a pipe are given by
  what that decoding makes of them: a text, or a \<^verbatim>\<open>UnicodeDecodeError\<close>.
\<close>

datatype captured = Text string | Undecodable

fun decode :: "captured \<Rightarrow> exn + string" where
  "decode (Text s) = Inr s"
| "decode Undecodable = Inl UnicodeDecodeError"


text \<open>
  The run of \<^verbatim>\<open>latexmk\<close> is given by when and how it ends: after a number of seconds
  with a return code and the bytes captured from its two pipes, or never.
  \<^verbatim>\<open>communicate(timeout=t)\<close> raises \<^verbatim>\<open>TimeoutExpired\<close> when the process has not ended
  within \<open>t\<close> seconds, leaving the process running. When it has ended in time, the
  return code is set and the two captures are decoded, standard output first; the
  texts are returned, or the \<^verbatim>\<open>UnicodeDecodeError\<close> of the first capture that does not
  decode is raised.
\<close>

datatype proc_run = Exits nat int captured captured | Hangs

definition communicate :: "nat \<Rightarrow> proc_run \<Rightarrow> exn + int \<times> string \<times> string" where
  "communicate timeout p =
     (case p of
        Exits seconds returncode out err \<Rightarrow>
          if seconds \<le> timeout then
            (case decode out of
               Inl e \<Rightarrow> Inl e
             | Inr stdout \<Rightarrow>
                 (case decode err of
                    Inl e \<Rightarrow> Inl e
                  | Inr stderr \<Rightarrow> Inr (returncode, stdout, stderr)))
          else Inl TimeoutExpired
      | Hangs \<Rightarrow> Inl TimeoutExpired)"

text \<open>What the script finds around it.\<close>

record world =
  main_tex_exists :: bool
  mkdir_error :: "exn option"
  popen :: "exn + proc_run"
  pdf_exists :: bool
  tex_files :: tex_tree
  main_log :: log_file
  pdfa_outcome :: "exn + bool"

text \<open>What the script does to the outside, in order.\<close>

datatype message =
    Main_tex_not_found
  | Starting_compilation
  | Press_ctrl_c
  | Successfully_compiled
  | Pdf_created
  | Pdf_not_found
  | Failed_to_compile
  | Error_output string
  | Timeout_compiling
  | Compilation_interrupted
  | Exception_compiling exn

datatype event = Tprint message | Mkdir | Spinner_start | Spinner_stop | Popen_latexmk | Kill

text \<open>The two globals, and the trace of events so far.\<close>

record sup =
  current_process :: "proc_run option"
  spinner :: bool
  trace :: "event list"

definition init_sup :: sup where
  "init_sup = \<lparr>current_process = None, spinner = False, trace = []\<rparr>"

definition emit :: "event \<Rightarrow> sup \<Rightarrow> sup" where
  "emit e st = st\<lparr>trace := trace st @ [e]\<rparr>"

text \<open>The body of the inner \<^verbatim>\<open>try\<close>: \<^verbatim>\<open>Popen\<close>, then \<^verbatim>\<open>communicate(timeout=6000)\<close>.\<close>

definition run_latexmk :: "world \<Rightarrow> sup \<Rightarrow> (exn + int \<times> string \<times> string) \<times> sup" where
  "run_latexmk w st =
     (case popen w of
        Inl e \<Rightarrow> (Inl e, st)
      | Inr p \<Rightarrow>
          (let st = emit Popen_latexmk (st\<lparr>current_process := Some p\<rparr>)
           in (communicate 6000 p, st)))"

text \<open>Its \<^verbatim>\<open>finally\<close>: the spinner is stopped and the handle cleared.\<close>

definition finally_block :: "sup \<Rightarrow> sup" where
  "finally_block st =
     (let st = (if spinner st then emit Spinner_stop st else st)
      in st\<lparr>current_process := None\<rparr>)"

text \<open>The three \<^verbatim>\<open>except\<close> clauses of the outer \<^verbatim>\<open>try\<close>; each returns \<^verbatim>\<open>False\<close>.\<close>

definition handlers :: "exn \<Rightarrow> sup \<Rightarrow> bool \<times> sup" where
  "handlers e st =
     (if e = TimeoutExpired then
        (let st = (case current_process st of Some p \<Rightarrow> emit Kill st | None \<Rightarrow> st)
         in (False, emit (Tprint Timeout_compiling) st))
      else if e = KeyboardInterrupt then (False, emit (Tprint Compilation_interrupted) st)
      else (False, emit (Tprint (Exception_compiling e)) st))"

definition compile_main_tex :: "world \<Rightarrow> sup \<Rightarrow> bool \<times> sup" where
  "compile_main_tex w st =
     (if \<not> main_tex_exists w then (False, emit (Tprint Main_tex_not_found) st)
      else
        (case mkdir_error w of
           Some e \<Rightarrow> handlers e st
         | None \<Rightarrow>
             (let st = emit Mkdir st;
                  st = emit (Tprint Starting_compilation) st;
                  st = emit (Tprint Press_ctrl_c) st;
                  st = emit Spinner_start (st\<lparr>spinner := True\<rparr>);
                  (r, st) = run_latexmk w st;
                  st = finally_block st
              in (case r of
                    Inl e \<Rightarrow> handlers e st
                  | Inr (returncode, out, err) \<Rightarrow>
                      if returncode = 0 then
                        (let st = emit (Tprint Successfully_compiled) st
                         in if pdf_exists w then (True, emit (Tprint Pdf_created) st)
                            else (True, emit (Tprint Pdf_not_found) st))
                      else
                        (let st = emit (Tprint Failed_to_compile) st;
                             st = (if err \<noteq> [] then emit (Tprint (Error_output err)) st else st)
                         in (False, st))))))"

text \<open>
  \<^verbatim>\<open>main\<close>: the status the program exits with. The counting and the log analysis run
  for their printed report only. \<^verbatim>\<open>convert_to_pdfa\<close> runs Ghostscript; its outcome is taken
  from the world, and an exception it lets through ends the program with status 1.
\<close>

definition main :: "bool \<Rightarrow> world \<Rightarrow> nat" where
  "main pdfa w =
     (let (success, st) = compile_main_tex w init_sup;
          equation_count = (if success then count_equations_detailed (tex_files w) else 0);
          figure_counts = count_figures_and_tables (tex_files w);
          (warning_count, aux_count) = count_and_display_warnings (main_log w)
      in if success then
           (if pdfa then (case pdfa_outcome w of Inl e \<Rightarrow> 1 | Inr convert_sucess \<Rightarrow> 0) else 0)
         else 1)"

section \<open>Concrete inputs\<close>

text \<open>A run that never ends; a run that ends with return code 0 after 42 seconds
  and leaves no PDF; and a run that ends with return code 0 after 42 seconds, leaves the
  PDF, and has written bytes to its standard output that do not decode.\<close>

definition hanging_world :: world where
  "hanging_world = \<lparr>main_tex_exists = True, mkdir_error = None, popen = Inr Hangs,
     pdf_exists = False, tex_files = Inr [], main_log = LogAbsent, pdfa_outcome = Inr True\<rparr>"

definition clean_world :: world where
  "clean_world = \<lparr>main_tex_exists = True, mkdir_error = None,
     popen = Inr (Exits 42 0 (Text []) (Text [])),
     pdf_exists = False, tex_files = Inr [], main_log = LogAbsent, pdfa_outcome = Inr True\<rparr>"


text \<open>The log of the scenario: an undefined reference, then an overfull box.\<close>

definition reference_line :: string where
  "reference_line = ''LaTeX Warning: Reference `fig:1'' @ [sq] @ '' on page 3 undefined''"

definition overfull_line :: string where
  "overfull_line = ''Overfull '' @ [bs] @ ''hbox (5.2pt too wide) in paragraph at lines 10--12''"

definition scenario_log :: string where
  "scenario_log = reference_line @ [nl] @ overfull_line"

text \<open>The two files of the figure scenario, with three dots for each elided text.\<close>

definition figure_with_two :: string where
  "figure_with_two =
     [bs] @ ''begin{figure}...'' @ [bs] @ ''begin{subfigure}...'' @ [bs] @ ''end{subfigure}''
     @ [bs] @ ''begin{subfigure}...'' @ [bs] @ ''end{subfigure}'' @ [bs] @ ''end{figure}''"

definition figure_plain :: string where
  "figure_plain = [bs] @ ''begin{figure}...'' @ [bs] @ ''end{figure}''"

text \<open>A non-starred equation whose body starts with an asterisk.\<close>

definition starred_after :: string where
  "starred_after = [bs] @ ''begin{equation}*x=1'' @ [bs] @ ''end{equation}''"

text \<open>
  The begin-markers of a label family in a text, counted without any regular
  expression: the positions at which \<^verbatim>\<open>\begin{label}\<close> or \<^verbatim>\<open>\begin{label*}\<close> starts.
\<close>

fun occurrences :: "string \<Rightarrow> string \<Rightarrow> nat" where
  "occurrences needle [] = (if needle = [] then 1 else 0)"
| "occurrences needle (c # cs) =
     (if take (length needle) (c # cs) = needle then 1 else 0) + occurrences needle cs"

definition begin_markers :: "string \<Rightarrow> string \<Rightarrow> nat" where
  "begin_markers label content =
     occurrences ([bs] @ ''begin{'' @ label @ ''}'') content
     + occurrences ([bs] @ ''begin{'' @ label @ ''*}'') content"

text \<open>Helpers for evaluating the matcher: the results of a first part, continued.\<close>

definition ends_then :: "flags \<Rightarrow> regex \<Rightarrow> string \<Rightarrow> mres list \<Rightarrow> mres list" where
  "ends_then fl b s rs =
     concat (map (\<lambda>r. map (after (fst r) (snd r)) (ends fl b (drop (fst r) s))) rs)"

definition ends_more :: "flags \<Rightarrow> regex \<Rightarrow> string \<Rightarrow> mres list \<Rightarrow> mres list" where
  "ends_more fl p s rs =
     concat (map (\<lambda>r. if 0 < fst r \<and> fst r \<le> length s
                       then map (after (fst r) (snd r)) (ends fl p (drop (fst r) s))
                       else []) rs)"

text \<open>
  The texts of the files that could be read, and the number of container blocks of one
  kind in a tree: the matches of the kind's block patterns over those texts.
\<close>

definition readable :: "tex_file list \<Rightarrow> string list" where
  "readable fs = concat (map (\<lambda>f. case f of Inl e \<Rightarrow> [] | Inr content \<Rightarrow> [content]) fs)"

definition blocks_in :: "regex list \<Rightarrow> string \<Rightarrow> nat" where
  "blocks_in patterns content =
     sum_list (map (\<lambda>p. length (findall DOTALL p content)) patterns)"

definition container_count :: "regex list \<Rightarrow> tex_file list \<Rightarrow> nat" where
  "container_count patterns fs = sum_list (map (blocks_in patterns) (readable fs))"

text \<open>
  What one numbered line adds to each of the two lists, and the test that a box
  pattern matches a (stripped) line.
\<close>

definition box_match :: "string \<Rightarrow> bool" where
  "box_match line_text =
     list_ex (\<lambda>pattern. search IGNORECASE pattern line_text) auxiliary_patterns"

definition line_warnings :: "nat \<times> string \<Rightarrow> diag list" where
  "line_warnings numbered =
     (let line_text = strip (snd numbered) in
      if should_exclude line_text then []
      else if records_of (fst numbered) line_text auxiliary_patterns \<noteq> [] then []
      else records_of (fst numbered) line_text warning_patterns)"

definition line_notices :: "nat \<times> string \<Rightarrow> diag list" where
  "line_notices numbered =
     (let line_text = strip (snd numbered) in
      if should_exclude line_text then []
      else records_of (fst numbered) line_text auxiliary_patterns)"

text \<open>Logs for the classification: a warning that mentions a box, and a package-info
  line that mentions both.\<close>

definition boxed_warning_log :: string where
  "boxed_warning_log = ''ok'' @ [nl] @ ''LaTeX Warning: Overfull '' @ [bs] @ ''hbox (badness 10)''"

definition info_log :: string where
  "info_log = ''Package foo Info: LaTeX Warning: Overfull '' @ [bs] @ ''hbox here''"

text \<open>A record with its two texts lower-cased, for comparing records up to letter case.\<close>

definition fold_case :: "diag \<Rightarrow> diag" where
  "fold_case d = d\<lparr>msg_text := map py_lower (msg_text d), full_line := map py_lower (full_line d)\<rparr>"

text \<open>A warning line written in lower case, and an exclusion signature written in upper case.\<close>

definition lower_warning_log :: string where
  "lower_warning_log = ''latex warning: x''"

definition upper_info_log :: string where
  "upper_info_log = ''LATEX FONT INFO: x''"

section \<open>Properties\<close>

subsection \<open>Process supervisor\<close>

lemmas sup_defs = compile_main_tex_def run_latexmk_def finally_block_def handlers_def
  emit_def init_sup_def communicate_def

text \<open>The exit status is decided by the compilation alone (and, on request, by the
  conversion).\<close>

lemma main_exit_code: "main pdfa w =
  (if fst (compile_main_tex w init_sup)
   then (if pdfa then (case pdfa_outcome w of Inl e \<Rightarrow> 1 | Inr b \<Rightarrow> 0) else 0) else 1)"
  by (simp add: main_def Let_def split: prod.splits)

text \<open>
  The handler of \<^verbatim>\<open>TimeoutExpired\<close> kills the process only \<^verbatim>\<open>if current_process\<close>, and
  the \<^verbatim>\<open>finally\<close> of the inner \<^verbatim>\<open>try\<close> has set that global to \<^verbatim>\<open>None\<close> before the
  handler runs. Started from the initial globals, no run of \<^verbatim>\<open>compile_main_tex\<close> ever
  reaches the kill.
\<close>

lemma kill_never_reached: "Kill \<notin> set (trace (snd (compile_main_tex w init_sup)))"
  by (auto simp: sup_defs Let_def
      split: option.splits sum.splits proc_run.splits captured.splits prod.splits if_splits)

text \<open>
  C1 (as the code behaves). When \<^verbatim>\<open>latexmk\<close> is still running after 6000 seconds,
  \<^verbatim>\<open>compile_main_tex\<close> stops the spinner, clears the handle, prints the timeout message
  and returns \<^verbatim>\<open>False\<close>, and \<^verbatim>\<open>main\<close> exits with status 1; but the process is not
  killed: the trace of the run holds no \<open>Kill\<close>.
\<close>

theorem timeout_does_not_kill:
  "compile_main_tex hanging_world init_sup =
     (False, \<lparr>current_process = None, spinner = True,
        trace = [Mkdir, Tprint Starting_compilation, Tprint Press_ctrl_c, Spinner_start,
                 Popen_latexmk, Spinner_stop, Tprint Timeout_compiling]\<rparr>)
   \<and> Kill \<notin> set (trace (snd (compile_main_tex hanging_world init_sup)))
   \<and> main False hanging_world = 1"
  by (simp add: main_exit_code sup_defs hanging_world_def Let_def)




subsection \<open>Missing log\<close>

lemma run_ignores_log: "run_latexmk (w\<lparr>main_log := l\<rparr>) st = run_latexmk w st"
  by (simp add: run_latexmk_def)

lemma compile_ignores_log: "compile_main_tex (w\<lparr>main_log := l\<rparr>) st = compile_main_tex w st"
  by (simp add: compile_main_tex_def run_ignores_log Let_def
      split: option.split prod.split sum.split)

text \<open>
  C8. With \<^verbatim>\<open>output/main.log\<close> absent, the body of \<^verbatim>\<open>count_and_display_warnings\<close>
  returns \<^verbatim>\<open>(0, 0)\<close> without raising, so the function returns \<^verbatim>\<open>(0, 0)\<close>; and the exit
  status of \<^verbatim>\<open>main\<close> is the one it has with any other log: a successful compilation
  with no log still exits with status 0.
\<close>

theorem missing_log_is_zero_zero:
  "analyse_log LogAbsent = Inr (0, 0)
   \<and> count_and_display_warnings LogAbsent = (0, 0)
   \<and> (\<forall>pdfa w. main pdfa (w\<lparr>main_log := LogAbsent\<rparr>) = main pdfa w)
   \<and> main False (clean_world\<lparr>main_log := LogAbsent\<rparr>) = 0"
proof -
  have "analyse_log LogAbsent = Inr (0, 0)"
    by (simp add: analyse_log_def)
  moreover have "count_and_display_warnings LogAbsent = (0, 0)"
    by (simp add: analyse_log_def count_and_display_warnings_def)
  moreover have "\<forall>pdfa w. main pdfa (w\<lparr>main_log := LogAbsent\<rparr>) = main pdfa w"
    by (simp add: main_exit_code compile_ignores_log)
  moreover have "main False (clean_world\<lparr>main_log := LogAbsent\<rparr>) = 0"
    by (simp add: main_exit_code sup_defs clean_world_def Let_def)
  ultimately show ?thesis by blast
qed

subsection \<open>Evaluating the matcher\<close>

text \<open>
  Equations by which concrete inputs are evaluated: lower-casing on the bits of a
  character, and the matcher with the continuation of a sequence or repetition
  unfolded one result at a time.
\<close>

lemma py_lower_Char [code]:
  "py_lower (Char b0 b1 b2 b3 b4 b5 b6 b7) =
     (if b6 \<and> \<not> b5 \<and>
         ((\<not> b7 \<and> (b0 \<or> b1 \<or> b2 \<or> b3 \<or> b4) \<and> \<not> (b4 \<and> b3 \<and> (b2 \<or> (b1 \<and> b0))))
          \<or> (b7 \<and> \<not> (b4 \<and> b3 \<and> b2 \<and> b1 \<and> b0) \<and> \<not> (b4 \<and> \<not> b3 \<and> b2 \<and> b1 \<and> b0)))
      then Char b0 b1 b2 b3 b4 True b6 b7 else Char b0 b1 b2 b3 b4 b5 b6 b7)"
  by (cases b0; cases b1; cases b2; cases b3; cases b4; cases b5; cases b6; cases b7;
      simp add: py_lower_def; code_simp)

lemma ends_then_code [code]:
  "ends_then fl b s [] = []"
  "ends_then fl b s ((n, g) # rs) = map (after n g) (ends fl b (drop n s)) @ ends_then fl b s rs"
  by (simp_all add: ends_then_def)

lemma ends_more_code [code]:
  "ends_more fl p s [] = []"
  "ends_more fl p s ((n, g) # rs) =
     (if 0 < n \<and> n \<le> length s then map (after n g) (ends fl p (drop n s)) else [])
     @ ends_more fl p s rs"
  by (simp_all add: ends_more_def)

lemma ends_code [code]:
  "ends fl Eps s = [(0, None)]"
  "ends fl (Lit c) s = (case s of [] \<Rightarrow> [] | d # _ \<Rightarrow> single_if (lit_match fl c d))"
  "ends fl Dot s = (case s of [] \<Rightarrow> [] | d # _ \<Rightarrow> single_if (dotall fl \<or> d \<noteq> nl))"
  "ends fl (Cls k) s = (case s of [] \<Rightarrow> [] | d # _ \<Rightarrow> single_if (cls_match fl k d))"
  "ends fl (Seq a b) s = ends_then fl b s (ends fl a s)"
  "ends fl (Alt a b) s = ends fl a s @ ends fl b s"
  "ends fl (Star a) s = ends_more fl (Star a) s (ends fl a s) @ [(0, None)]"
  "ends fl (Lazy a) s = (0, None) # ends_more fl (Lazy a) s (ends fl a s)"
  "ends fl (Group a) s = map (\<lambda>r. (fst r, Some (0, fst r))) (ends fl a s)"
  "ends fl (NotAhead a) s = (if ends fl a s = [] then [(0, None)] else [])"
  by (simp_all add: ends_then_def ends_more_def)

subsection \<open>The log scenario\<close>

text \<open>
  C2 (as the claim states it) fails: on the two-line log the warning list does not have
  exactly one record.
\<close>

theorem scenario_not_one_warning:
  "\<not> (length (fst (parse_warnings scenario_log)) = 1
      \<and> length (snd (parse_warnings scenario_log)) = 1)"
  by code_simp

text \<open>
  C2 (amended). On the two-line log \<^verbatim>\<open>parse_warnings\<close> returns two Warning records,
  both for line 1: the generic \<^verbatim>\<open>LaTeX Warning: (.+)\<close> pattern records the text after
  the colon and the undefined-reference pattern records the label; and it returns one
  AuxiliaryLayoutNotice record, for line 2.
\<close>

theorem scenario_two_warnings_one_notice:
  "parse_warnings scenario_log =
     ([\<lparr>line = 1, msg_text = ''Reference `fig:1'' @ [sq] @ '' on page 3 undefined'',
         full_line = reference_line\<rparr>,
       \<lparr>line = 1, msg_text = ''fig:1'', full_line = reference_line\<rparr>],
      [\<lparr>line = 2, msg_text = overfull_line, full_line = overfull_line\<rparr>])"
  by code_simp

subsection \<open>Starred and non-starred equation markers\<close>

text \<open>
  C4 (the failing input). The text \<^verbatim>\<open>\begin{equation}*x=1\end{equation}\<close> holds one
  begin-marker of the family \<^verbatim>\<open>equation\<close>, in the non-starred spelling; the lookahead
  \<^verbatim>\<open>(?!\*)\<close> rejects it because an asterisk follows the closing brace, the starred
  pattern does not match it either, so neither count moves and the total is 0.
\<close>

theorem marker_before_asterisk_uncounted:
  "begin_markers ''equation'' starred_after = 1
   \<and> equation_loop [Inr starred_after] equation_types = equation_types
   \<and> count_equations_detailed (Inr [Inr starred_after]) = 0"
  by code_simp

subsection \<open>Containers with and without nested elements\<close>

text \<open>Each inner text moves exactly one of the first two tallies, by one.\<close>

lemma tally_sum:
  "fst (tally sub inners t) + fst (snd (tally sub inners t)) =
     fst t + fst (snd t) + length inners"
proof (induction inners arbitrary: t)
  case Nil
  show ?case by simp
next
  case (Cons inner rest)
  obtain w wo tot where t: "t = (w, wo, tot)"
    by (cases t) auto
  show ?case
  proof (cases "0 < length (findall NOFLAGS sub inner)")
    case True
    then show ?thesis
      using Cons.IH [of "(w + 1, wo, tot + length (findall NOFLAGS sub inner))"]
      by (simp add: t Let_def)
  next
    case False
    then show ?thesis
      using Cons.IH [of "(w, wo + 1, tot)"] by (simp add: t Let_def)
  qed
qed

lemma tally_twice:
  "fst (tally sub xs (tally sub ys t)) + fst (snd (tally sub xs (tally sub ys t))) =
     fst t + fst (snd t) + length ys + length xs"
  by (simp add: tally_sum)

lemma scan_content_figures:
  "figures_with_subfigures (scan_content content c)
     + figures_without_subfigures (scan_content content c) =
   figures_with_subfigures c + figures_without_subfigures c
     + blocks_in [figure_pattern, figure_star_pattern] content"
  using tally_twice [of "begin_pattern ''subfigure''"
      "findall DOTALL figure_star_pattern content" "findall DOTALL figure_pattern content"
      "(figures_with_subfigures c, figures_without_subfigures c, total_subfigures c)"]
  by (simp add: scan_content_def blocks_in_def Let_def case_prod_beta)

lemma scan_content_tables:
  "tables_with_subtables (scan_content content c)
     + tables_without_subtables (scan_content content c) =
   tables_with_subtables c + tables_without_subtables c
     + blocks_in [table_pattern, table_star_pattern] content"
  using tally_twice [of "begin_pattern ''subtable''"
      "findall DOTALL table_star_pattern content" "findall DOTALL table_pattern content"
      "(tables_with_subtables c, tables_without_subtables c, total_subtables c)"]
  by (simp add: scan_content_def blocks_in_def Let_def case_prod_beta)

lemma scan_content_plots:
  "plots_with_subplots (scan_content content c)
     + plots_without_subplots (scan_content content c) =
   plots_with_subplots c + plots_without_subplots c + blocks_in [plot_pattern] content"
  using tally_sum [of "begin_pattern ''subplot''" "findall DOTALL plot_pattern content"
      "(plots_with_subplots c, plots_without_subplots c, total_subplots c)"]
  by (simp add: scan_content_def blocks_in_def Let_def case_prod_beta)

lemma scan_content_tikz:
  "tikzpictures_with_plots (scan_content content c)
     + tikzpictures_without_plots (scan_content content c) =
   tikzpictures_with_plots c + tikzpictures_without_plots c + blocks_in [tikz_pattern] content"
  using tally_sum [of tikz_plot_pattern "findall DOTALL tikz_pattern content"
      "(tikzpictures_with_plots c, tikzpictures_without_plots c, total_addplots c)"]
  by (simp add: scan_content_def blocks_in_def Let_def case_prod_beta)

lemma scan_content_axis:
  "pgfplots_with_subplots (scan_content content c)
     + pgfplots_without_subplots (scan_content content c) =
   pgfplots_with_subplots c + pgfplots_without_subplots c + blocks_in [axis_pattern] content"
  using tally_sum [of addplot_pattern "findall DOTALL axis_pattern content"
      "(pgfplots_with_subplots c, pgfplots_without_subplots c,
        snd (snd (tally tikz_plot_pattern (findall DOTALL tikz_pattern content)
          (tikzpictures_with_plots c, tikzpictures_without_plots c, total_addplots c))))"]
  by (simp add: scan_content_def blocks_in_def Let_def case_prod_beta)

lemma figure_loop_counts:
  "figures_with_subfigures (figure_loop fs c) + figures_without_subfigures (figure_loop fs c) =
     figures_with_subfigures c + figures_without_subfigures c
       + container_count [figure_pattern, figure_star_pattern] fs"
  "tables_with_subtables (figure_loop fs c) + tables_without_subtables (figure_loop fs c) =
     tables_with_subtables c + tables_without_subtables c
       + container_count [table_pattern, table_star_pattern] fs"
  "plots_with_subplots (figure_loop fs c) + plots_without_subplots (figure_loop fs c) =
     plots_with_subplots c + plots_without_subplots c + container_count [plot_pattern] fs"
  "tikzpictures_with_plots (figure_loop fs c) + tikzpictures_without_plots (figure_loop fs c) =
     tikzpictures_with_plots c + tikzpictures_without_plots c + container_count [tikz_pattern] fs"
  "pgfplots_with_subplots (figure_loop fs c) + pgfplots_without_subplots (figure_loop fs c) =
     pgfplots_with_subplots c + pgfplots_without_subplots c + container_count [axis_pattern] fs"
proof (induction fs c rule: figure_loop.induct)
  case (1 c)
  {
    case 1 show ?case by (simp add: container_count_def readable_def)
  next
    case 2 show ?case by (simp add: container_count_def readable_def)
  next
    case 3 show ?case by (simp add: container_count_def readable_def)
  next
    case 4 show ?case by (simp add: container_count_def readable_def)
  next
    case 5 show ?case by (simp add: container_count_def readable_def)
  }
next
  case (2 e fs c)
  {
    case 1 show ?case using "2.IH"(1) by (simp add: container_count_def readable_def)
  next
    case 2 show ?case using "2.IH"(2) by (simp add: container_count_def readable_def)
  next
    case 3 show ?case using "2.IH"(3) by (simp add: container_count_def readable_def)
  next
    case 4 show ?case using "2.IH"(4) by (simp add: container_count_def readable_def)
  next
    case 5 show ?case using "2.IH"(5) by (simp add: container_count_def readable_def)
  }
next
  case (3 content fs c)
  {
    case 1 show ?case using "3.IH"(1) scan_content_figures [of content c]
      by (simp add: container_count_def readable_def)
  next
    case 2 show ?case using "3.IH"(2) scan_content_tables [of content c]
      by (simp add: container_count_def readable_def)
  next
    case 3 show ?case using "3.IH"(3) scan_content_plots [of content c]
      by (simp add: container_count_def readable_def)
  next
    case 4 show ?case using "3.IH"(4) scan_content_tikz [of content c]
      by (simp add: container_count_def readable_def)
  next
    case 5 show ?case using "3.IH"(5) scan_content_axis [of content c]
      by (simp add: container_count_def readable_def)
  }
qed

text \<open>
  C5. For every list of files and each container kind, the tally of containers with
  nested elements plus the tally of containers without equals the number of container
  blocks matched in the readable files (plain and starred blocks together for figures
  and tables); the totals returned for figures, tables and custom plots are these sums.
  For the tree of the scenario (one figure with two subfigures, one figure with none):
  figures_with_subfigures = 1, total_subfigures = 2, figures_without_subfigures = 1 and
  2 figures in total.
\<close>

theorem with_plus_without_is_total:
  "figures_with_subfigures (tree_counts fs) + figures_without_subfigures (tree_counts fs)
     = container_count [figure_pattern, figure_star_pattern] fs
   \<and> tables_with_subtables (tree_counts fs) + tables_without_subtables (tree_counts fs)
     = container_count [table_pattern, table_star_pattern] fs
   \<and> plots_with_subplots (tree_counts fs) + plots_without_subplots (tree_counts fs)
     = container_count [plot_pattern] fs
   \<and> tikzpictures_with_plots (tree_counts fs) + tikzpictures_without_plots (tree_counts fs)
     = container_count [tikz_pattern] fs
   \<and> pgfplots_with_subplots (tree_counts fs) + pgfplots_without_subplots (tree_counts fs)
     = container_count [axis_pattern] fs
   \<and> figures (count_figures_and_tables (Inr fs))
     = container_count [figure_pattern, figure_star_pattern] fs
   \<and> tables (count_figures_and_tables (Inr fs))
     = container_count [table_pattern, table_star_pattern] fs
   \<and> custom_plots (count_figures_and_tables (Inr fs)) = container_count [plot_pattern] fs
   \<and> tree_counts [Inr figure_with_two, Inr figure_plain]
     = zero_counts\<lparr>figures_with_subfigures := 1, figures_without_subfigures := 1,
         total_subfigures := 2\<rparr>
   \<and> figures (count_figures_and_tables (Inr [Inr figure_with_two, Inr figure_plain])) = 2"
proof -
  note sums = figure_loop_counts [of fs zero_counts, folded tree_counts_def]
  have f: "figures_with_subfigures (tree_counts fs) + figures_without_subfigures (tree_counts fs)
      = container_count [figure_pattern, figure_star_pattern] fs"
    using sums(1) by (simp add: zero_counts_def)
  have t: "tables_with_subtables (tree_counts fs) + tables_without_subtables (tree_counts fs)
      = container_count [table_pattern, table_star_pattern] fs"
    using sums(2) by (simp add: zero_counts_def)
  have p: "plots_with_subplots (tree_counts fs) + plots_without_subplots (tree_counts fs)
      = container_count [plot_pattern] fs"
    using sums(3) by (simp add: zero_counts_def)
  have k: "tikzpictures_with_plots (tree_counts fs) + tikzpictures_without_plots (tree_counts fs)
      = container_count [tikz_pattern] fs"
    using sums(4) by (simp add: zero_counts_def)
  have a: "pgfplots_with_subplots (tree_counts fs) + pgfplots_without_subplots (tree_counts fs)
      = container_count [axis_pattern] fs"
    using sums(5) by (simp add: zero_counts_def)
  have sf: "figures (count_figures_and_tables (Inr fs))
      = container_count [figure_pattern, figure_star_pattern] fs"
    using f by (simp add: count_figures_and_tables_def summarise_def Let_def)
  have st: "tables (count_figures_and_tables (Inr fs))
      = container_count [table_pattern, table_star_pattern] fs"
    using t by (simp add: count_figures_and_tables_def summarise_def Let_def)
  have sp: "custom_plots (count_figures_and_tables (Inr fs)) = container_count [plot_pattern] fs"
    using p by (simp add: count_figures_and_tables_def summarise_def Let_def)
  have scenario: "tree_counts [Inr figure_with_two, Inr figure_plain]
      = zero_counts\<lparr>figures_with_subfigures := 1, figures_without_subfigures := 1,
          total_subfigures := 2\<rparr>"
    by code_simp
  have total: "figures (count_figures_and_tables (Inr [Inr figure_with_two, Inr figure_plain])) = 2"
    by (simp add: count_figures_and_tables_def summarise_def Let_def scenario zero_counts_def)
  show ?thesis
    using f t p k a sf st sp scenario total by blast
qed

subsection \<open>Files that cannot be read\<close>

lemma equation_loop_skips:
  "equation_loop (pre @ Inl e # post) types = equation_loop (pre @ post) types"
  by (induction pre types rule: equation_loop.induct) simp_all

lemma figure_loop_skips:
  "figure_loop (pre @ Inl e # post) c = figure_loop (pre @ post) c"
  by (induction pre c rule: figure_loop.induct) simp_all

lemma equation_loop_all_failed: "list_all isl fs \<Longrightarrow> equation_loop fs types = types"
  by (induction fs types rule: equation_loop.induct) simp_all

lemma figure_loop_all_failed: "list_all isl fs \<Longrightarrow> figure_loop fs c = c"
  by (induction fs c rule: figure_loop.induct) simp_all

lemma summarise_zero: "summarise zero_counts = zero_summary"
  by (simp add: summarise_def zero_counts_def zero_summary_def)

text \<open>
  C3 (as the claim states it) fails in its second half: a tree with one readable file
  that holds none of the counted constructs gives the all-zero result, although a file
  was found and no file failed.
\<close>

theorem all_zero_without_failure:
  "count_figures_and_tables (Inr [Inr ''plain text'']) = zero_summary
   \<and> count_equations_detailed (Inr [Inr ''plain text'']) = 0
   \<and> [Inr ''plain text''] \<noteq> ([] :: tex_file list)
   \<and> \<not> list_all isl [Inr ''plain text'' :: tex_file]"
  by code_simp

text \<open>
  C3 (amended). A file that cannot be read is skipped: the counts of both scans are
  those of the tree without that file, whatever stands before or after it. When no file
  was found or every file failed, and also when the enumeration of the tree itself
  failed, both functions return their all-zero result. (The all-zero result is also
  what a tree without any counted construct gives.)
\<close>

theorem unreadable_files_are_skipped:
  "equation_loop (pre @ Inl e # post) types = equation_loop (pre @ post) types
   \<and> figure_loop (pre @ Inl e # post) c = figure_loop (pre @ post) c
   \<and> count_equations_detailed (Inr (pre @ Inl e # post))
       = count_equations_detailed (Inr (pre @ post))
   \<and> count_figures_and_tables (Inr (pre @ Inl e # post))
       = count_figures_and_tables (Inr (pre @ post))
   \<and> (list_all isl fs \<longrightarrow>
        count_figures_and_tables (Inr fs) = zero_summary
        \<and> count_equations_detailed (Inr fs) = 0)
   \<and> count_figures_and_tables (Inl e) = zero_summary
   \<and> count_equations_detailed (Inl e) = 0"
  by (simp add: equation_loop_skips figure_loop_skips equation_loop_all_failed
      figure_loop_all_failed summarise_zero count_equations_detailed_def
      count_figures_and_tables_def tree_counts_def equation_types_def)

theorem unreadable_files_are_skipped_witness:
  "count_figures_and_tables (Inr [Inr figure_plain, Inl OSError, Inr figure_with_two])
     = count_figures_and_tables (Inr [Inr figure_plain, Inr figure_with_two])
   \<and> count_equations_detailed (Inr [Inr figure_plain, Inl OSError, Inr figure_with_two])
     = count_equations_detailed (Inr [Inr figure_plain, Inr figure_with_two])
   \<and> count_figures_and_tables (Inr [Inl OSError, Inl FileNotFoundError]) = zero_summary
   \<and> count_equations_detailed (Inr [Inl OSError, Inl FileNotFoundError]) = 0
   \<and> count_figures_and_tables (Inr []) = zero_summary"
  using unreadable_files_are_skipped [of "[Inr figure_plain]" OSError "[Inr figure_with_two]"
      equation_types zero_counts "[Inl OSError, Inl FileNotFoundError]"]
    unreadable_files_are_skipped [of "[]" OSError "[]" equation_types zero_counts "[]"]
  by simp

subsection \<open>One category per line\<close>

lemma parse_lines_by_line:
  "parse_lines nls (ws, as) =
     (ws @ concat (map line_warnings nls), as @ concat (map line_notices nls))"
proof (induction nls arbitrary: ws as)
  case Nil
  show ?case by simp
next
  case (Cons numbered nls)
  obtain n raw where numbered: "numbered = (n, raw)"
    by (cases numbered) auto
  show ?case
    by (simp add: numbered Cons.IH line_warnings_def line_notices_def Let_def)
qed

lemma parse_warnings_by_line:
  "parse_warnings log_content =
     (concat (map line_warnings (enumerate_from 1 (split_nl log_content))),
      concat (map line_notices (enumerate_from 1 (split_nl log_content))))"
  by (simp add: parse_warnings_def parse_lines_by_line)

lemma records_of_line: "d \<in> set (records_of n l ps) \<Longrightarrow> line d = n"
  by (auto simp: records_of_def)

lemma records_of_empty:
  "(records_of n l ps = []) = (\<not> list_ex (\<lambda>p. search IGNORECASE p l) ps)"
  by (auto simp: records_of_def search_def list_ex_iff)

lemma line_warnings_line: "d \<in> set (line_warnings numbered) \<Longrightarrow> line d = fst numbered"
  unfolding line_warnings_def Let_def
  by (cases "should_exclude (strip (snd numbered))";
      cases "records_of (fst numbered) (strip (snd numbered)) auxiliary_patterns = []")
     (simp_all add: records_of_line)

lemma line_notices_line: "d \<in> set (line_notices numbered) \<Longrightarrow> line d = fst numbered"
  unfolding line_notices_def Let_def
  by (cases "should_exclude (strip (snd numbered))") (simp_all add: records_of_line)

lemma enumerate_from_is: "enumerate_from k xs = List.enumerate k xs"
  by (induction xs arbitrary: k) simp_all

lemma enumerate_from_mem:
  "((n, x) \<in> set (enumerate_from k xs)) = (k \<le> n \<and> n < length xs + k \<and> xs ! (n - k) = x)"
  by (simp add: enumerate_from_is in_set_enumerate_eq)

text \<open>The records of line \<open>Suc i\<close> are those of the \<open>i\<close>-th physical line.\<close>

lemma warnings_of_line:
  assumes "w \<in> set (fst (parse_warnings log_content))" and "line w = Suc i"
  shows "i < length (split_nl log_content)
    \<and> w \<in> set (line_warnings (Suc i, split_nl log_content ! i))"
proof -
  obtain n raw where mem: "(n, raw) \<in> set (enumerate_from 1 (split_nl log_content))"
      and w: "w \<in> set (line_warnings (n, raw))"
    using assms(1) by (auto simp: parse_warnings_by_line)
  have "line w = n"
    using line_warnings_line [OF w] by simp
  then show ?thesis
    using mem w assms(2) by (auto simp: enumerate_from_mem)
qed

lemma notices_of_line:
  assumes "a \<in> set (snd (parse_warnings log_content))" and "line a = Suc i"
  shows "i < length (split_nl log_content)
    \<and> a \<in> set (line_notices (Suc i, split_nl log_content ! i))"
proof -
  obtain n raw where mem: "(n, raw) \<in> set (enumerate_from 1 (split_nl log_content))"
      and a: "a \<in> set (line_notices (n, raw))"
    using assms(1) by (auto simp: parse_warnings_by_line)
  have "line a = n"
    using line_notices_line [OF a] by simp
  then show ?thesis
    using mem a assms(2) by (auto simp: enumerate_from_mem)
qed

lemma notices_from_line:
  assumes "i < length (split_nl log_content)"
    and "a \<in> set (line_notices (Suc i, split_nl log_content ! i))"
  shows "a \<in> set (snd (parse_warnings log_content))"
proof -
  have "(Suc i, split_nl log_content ! i) \<in> set (enumerate_from 1 (split_nl log_content))"
    using assms(1) by (simp add: enumerate_from_mem)
  then show ?thesis
    using assms(2) by (auto simp: parse_warnings_by_line)
qed

text \<open>
  C6. For every log and every physical line of it: when a box pattern matches the line
  (as the analyzer tests it, after \<^verbatim>\<open>strip()\<close>), no Warning record carries the number of
  that line; and unless an exclusion signature dropped the line, an
  AuxiliaryLayoutNotice record carries it.
\<close>

theorem box_line_is_never_a_warning:
  assumes "i < length (split_nl log_content)"
    and "box_match (strip (split_nl log_content ! i))"
  shows "list_all (\<lambda>w. line w \<noteq> Suc i) (fst (parse_warnings log_content))
    \<and> (should_exclude (strip (split_nl log_content ! i))
        \<or> list_ex (\<lambda>a. line a = Suc i) (snd (parse_warnings log_content)))"
proof -
  let ?l = "strip (split_nl log_content ! i)"
  have found: "records_of (Suc i) ?l auxiliary_patterns \<noteq> []"
    using assms(2) by (simp add: records_of_empty box_match_def)
  then have none: "line_warnings (Suc i, split_nl log_content ! i) = []"
    by (simp add: line_warnings_def Let_def)
  have "line w \<noteq> Suc i" if "w \<in> set (fst (parse_warnings log_content))" for w
    using warnings_of_line [OF that, of i] none by auto
  then have first: "list_all (\<lambda>w. line w \<noteq> Suc i) (fst (parse_warnings log_content))"
    by (simp add: list_all_iff)
  have second: "list_ex (\<lambda>a. line a = Suc i) (snd (parse_warnings log_content))"
    if kept: "\<not> should_exclude ?l"
  proof -
    obtain a where a: "a \<in> set (records_of (Suc i) ?l auxiliary_patterns)"
      using found by (cases "records_of (Suc i) ?l auxiliary_patterns") auto
    then have "a \<in> set (line_notices (Suc i, split_nl log_content ! i))"
      using kept by (simp add: line_notices_def Let_def)
    then have "a \<in> set (snd (parse_warnings log_content))"
      using notices_from_line [OF assms(1)] by blast
    moreover have "line a = Suc i"
      using records_of_line [OF a] .
    ultimately show ?thesis
      by (auto simp: list_ex_iff)
  qed
  show ?thesis
    using first second by blast
qed

theorem box_line_is_never_a_warning_witness:
  "box_match (strip (split_nl boxed_warning_log ! 1))
   \<and> list_all (\<lambda>w. line w \<noteq> 2) (fst (parse_warnings boxed_warning_log))
   \<and> list_ex (\<lambda>a. line a = 2) (snd (parse_warnings boxed_warning_log))
   \<and> search IGNORECASE (warning_patterns ! 0) (strip (split_nl boxed_warning_log ! 1))"
proof -
  have len: "1 < length (split_nl boxed_warning_log)"
    by code_simp
  have box: "box_match (strip (split_nl boxed_warning_log ! 1))"
    by code_simp
  have kept: "\<not> should_exclude (strip (split_nl boxed_warning_log ! 1))"
    by code_simp
  have warn: "search IGNORECASE (warning_patterns ! 0) (strip (split_nl boxed_warning_log ! 1))"
    by code_simp
  show ?thesis
    using box_line_is_never_a_warning [OF len box] box kept warn
    by (simp add: numeral_2_eq_2)
qed

text \<open>
  C7. For every log and every physical line of it: when one of the exclusion
  signatures matches the line (after \<^verbatim>\<open>strip()\<close>), no Warning record and no
  AuxiliaryLayoutNotice record carries the number of that line.
\<close>

theorem excluded_line_leaves_no_record:
  assumes "i < length (split_nl log_content)"
    and "should_exclude (strip (split_nl log_content ! i))"
  shows "list_all (\<lambda>w. line w \<noteq> Suc i) (fst (parse_warnings log_content))
    \<and> list_all (\<lambda>a. line a \<noteq> Suc i) (snd (parse_warnings log_content))"
proof -
  have nw: "line_warnings (Suc i, split_nl log_content ! i) = []"
    using assms(2) by (simp add: line_warnings_def Let_def)
  have nn: "line_notices (Suc i, split_nl log_content ! i) = []"
    using assms(2) by (simp add: line_notices_def Let_def)
  have "line w \<noteq> Suc i" if "w \<in> set (fst (parse_warnings log_content))" for w
    using warnings_of_line [OF that, of i] nw by auto
  moreover have "line a \<noteq> Suc i" if "a \<in> set (snd (parse_warnings log_content))" for a
    using notices_of_line [OF that, of i] nn by auto
  ultimately show ?thesis
    by (simp add: list_all_iff)
qed

theorem excluded_line_leaves_no_record_witness:
  "should_exclude (strip (split_nl info_log ! 0))
   \<and> box_match (strip (split_nl info_log ! 0))
   \<and> search IGNORECASE (warning_patterns ! 0) (strip (split_nl info_log ! 0))
   \<and> list_all (\<lambda>w. line w \<noteq> 1) (fst (parse_warnings info_log))
   \<and> list_all (\<lambda>a. line a \<noteq> 1) (snd (parse_warnings info_log))"
proof -
  have len: "0 < length (split_nl info_log)"
    by code_simp
  have excl: "should_exclude (strip (split_nl info_log ! 0))"
    by code_simp
  have box: "box_match (strip (split_nl info_log ! 0))"
    by code_simp
  have warn: "search IGNORECASE (warning_patterns ! 0) (strip (split_nl info_log ! 0))"
    by code_simp
  show ?thesis
    using excluded_line_leaves_no_record [OF len excl] excl box warn
    by simp
qed

subsection \<open>Letter case\<close>

text \<open>Lower-casing is idempotent and leaves every character test of the matcher alone.\<close>

lemma py_lower_idem: "py_lower (py_lower c) = py_lower c"
  by (cases c) (auto simp: py_lower_Char)

lemma py_lower_nl: "(py_lower c = nl) = (c = nl)"
  by (cases c) (auto simp: py_lower_Char nl_def split: if_splits)

lemma of_char_py_lower:
  "(of_char (py_lower c) :: nat) =
     (if (65 \<le> (of_char c :: nat) \<and> (of_char c :: nat) \<le> 90)
         \<or> (192 \<le> (of_char c :: nat) \<and> (of_char c :: nat) \<le> 222 \<and> (of_char c :: nat) \<noteq> 215)
      then of_char c + 32 else of_char c)"
  by (simp add: py_lower_def Let_def)

lemma is_word_lower: "is_word (py_lower c) = is_word c"
  by (simp add: is_word_def of_char_py_lower Let_def)

lemma is_digit_lower: "is_digit (py_lower c) = is_digit c"
  by (simp add: is_digit_def of_char_py_lower Let_def)

lemma py_isspace_lower: "py_isspace (py_lower c) = py_isspace c"
  by (simp add: py_isspace_def of_char_py_lower Let_def)

lemma lit_match_lower: "ignorecase fl \<Longrightarrow> lit_match fl c (py_lower d) = lit_match fl c d"
  by (simp add: lit_match_def py_lower_idem)

lemma cls_match_lower: "ignorecase fl \<Longrightarrow> cls_match fl k (py_lower d) = cls_match fl k d"
  by (cases k) (simp_all add: is_word_lower is_digit_lower lit_match_lower)

text \<open>Under \<^verbatim>\<open>IGNORECASE\<close> the matcher cannot tell a text from its lower-cased copy.\<close>

lemma ends_lower: "ignorecase fl \<Longrightarrow> ends fl r (map py_lower s) = ends fl r s"
proof (induction fl r s rule: ends.induct)
  case (1 fl s)
  show ?case by simp
next
  case (2 fl c s)
  then show ?case by (cases s) (simp_all add: lit_match_lower)
next
  case (3 fl s)
  then show ?case by (cases s) (simp_all add: py_lower_nl)
next
  case (4 fl k s)
  then show ?case by (cases s) (simp_all add: cls_match_lower)
next
  case (5 fl a b s)
  have "ends fl b (drop (fst r) (map py_lower s)) = ends fl b (drop (fst r) s)"
    if "r \<in> set (ends fl a s)" for r
    using "5.IH"(2) [OF that "5.prems"] by (simp add: drop_map)
  then show ?case
    using "5.IH"(1) [OF "5.prems"] by (simp cong: map_cong)
next
  case (6 fl a b s)
  then show ?case by simp
next
  case (7 fl a s)
  have h: "ends fl (Star a) (map py_lower (drop (fst r) s)) = ends fl (Star a) (drop (fst r) s)"
    if "r \<in> set (ends fl a s)" "0 < fst r \<and> fst r \<le> length s" for r
    using "7.IH"(2) [OF that "7.prems"] .
  have "ends fl (Star a) (map py_lower s) =
      concat (map (\<lambda>r. if 0 < fst r \<and> fst r \<le> length (map py_lower s)
                          then map (after (fst r) (snd r))
                                 (ends fl (Star a) (drop (fst r) (map py_lower s)))
                          else [])
                (ends fl a (map py_lower s))) @ [(0, None)]"
    by (rule ends.simps)
  also have "\<dots> =
      concat (map (\<lambda>r. if 0 < fst r \<and> fst r \<le> length s
                          then map (after (fst r) (snd r)) (ends fl (Star a) (drop (fst r) s))
                          else [])
                (ends fl a s)) @ [(0, None)]"
    using "7.IH"(1) [OF "7.prems"] h by (simp del: ends.simps add: drop_map cong: map_cong if_cong)
  also have "\<dots> = ends fl (Star a) s"
    by (rule ends.simps [symmetric])
  finally show ?case .
next
  case (8 fl a s)
  have h: "ends fl (Lazy a) (map py_lower (drop (fst r) s)) = ends fl (Lazy a) (drop (fst r) s)"
    if "r \<in> set (ends fl a s)" "0 < fst r \<and> fst r \<le> length s" for r
    using "8.IH"(2) [OF that "8.prems"] .
  have "ends fl (Lazy a) (map py_lower s) =
      (0, None) # concat (map (\<lambda>r. if 0 < fst r \<and> fst r \<le> length (map py_lower s)
                          then map (after (fst r) (snd r))
                                 (ends fl (Lazy a) (drop (fst r) (map py_lower s)))
                          else [])
                (ends fl a (map py_lower s)))"
    by (rule ends.simps)
  also have "\<dots> =
      (0, None) # concat (map (\<lambda>r. if 0 < fst r \<and> fst r \<le> length s
                          then map (after (fst r) (snd r)) (ends fl (Lazy a) (drop (fst r) s))
                          else [])
                (ends fl a s))"
    using "8.IH"(1) [OF "8.prems"] h by (simp del: ends.simps add: drop_map cong: map_cong if_cong)
  also have "\<dots> = ends fl (Lazy a) s"
    by (rule ends.simps [symmetric])
  finally show ?case .
next
  case (9 fl a s)
  then show ?case by simp
next
  case (10 fl a s)
  then show ?case by simp
qed

lemma scan_lower: "ignorecase fl \<Longrightarrow> scan fl r (map py_lower s) off = scan fl r s off"
proof (induction fl r s off rule: scan.induct)
  case (1 fl r off)
  show ?case by simp
next
  case (2 fl r c cs off)
  have e: "ends fl r (py_lower c # map py_lower cs) = ends fl r (c # cs)"
    using ends_lower [OF "2.prems", of r "c # cs"] by simp
  show ?case
  proof (cases "ends fl r (c # cs)")
    case Nil
    then show ?thesis
      using "2.IH"(1) "2.prems" e by simp
  next
    case (Cons m ms)
    obtain n g where m: "m = (n, g)"
      by (cases m) auto
    show ?thesis
    proof (cases "n = 0")
      case True
      then show ?thesis
        using "2.IH"(2) [OF Cons m [symmetric] True "2.prems"] e Cons m by simp
    next
      case False
      then show ?thesis
        using "2.IH"(3) [OF Cons m [symmetric] False "2.prems"] e Cons m
        by (simp add: drop_map [symmetric] del: drop_map)
    qed
  qed
qed

lemma finditer_lower: "finditer IGNORECASE r (map py_lower s) = finditer IGNORECASE r s"
  by (simp add: finditer_def scan_lower IGNORECASE_def)

lemma search_lower: "search IGNORECASE r (map py_lower s) = search IGNORECASE r s"
  by (simp add: search_def finditer_lower)

lemma group_or_whole_lower:
  "group_or_whole (map py_lower s) m = map py_lower (group_or_whole s m)"
  by (simp add: group_or_whole_def take_map drop_map split: prod.split option.split)

lemma isspace_after_lower: "py_isspace \<circ> py_lower = py_isspace"
  by (rule ext) (simp add: py_isspace_lower)

lemma strip_lower: "strip (map py_lower s) = map py_lower (strip s)"
  by (simp add: strip_def dropWhile_map rev_map isspace_after_lower)

lemma split_nl_lower: "split_nl (map py_lower s) = map (map py_lower) (split_nl s)"
proof (induction s)
  case Nil
  show ?case by simp
next
  case (Cons c cs)
  then show ?case
    by (cases "split_nl cs") (simp_all add: py_lower_nl)
qed

lemma enumerate_from_map:
  "enumerate_from k (map f xs) = map (\<lambda>p. (fst p, f (snd p))) (enumerate_from k xs)"
  by (induction xs arbitrary: k) simp_all

text \<open>The three passes over one line, on the lower-cased line.\<close>

lemma should_exclude_lower: "should_exclude (map py_lower l) = should_exclude l"
  by (simp add: should_exclude_def search_lower)

lemma records_of_lower:
  "records_of n (map py_lower l) ps = map fold_case (records_of n l ps)"
  by (simp add: records_of_def finditer_lower map_concat comp_def fold_case_def
      group_or_whole_lower strip_lower)

lemma line_warnings_lower:
  "line_warnings (n, map py_lower raw) = map fold_case (line_warnings (n, raw))"
  by (simp add: line_warnings_def Let_def strip_lower should_exclude_lower records_of_lower)

lemma line_notices_lower:
  "line_notices (n, map py_lower raw) = map fold_case (line_notices (n, raw))"
  by (simp add: line_notices_def Let_def strip_lower should_exclude_lower records_of_lower)

lemma parse_warnings_lower:
  "parse_warnings (map py_lower log_content) =
     (map fold_case (fst (parse_warnings log_content)),
      map fold_case (snd (parse_warnings log_content)))"
proof -
  have w: "line_warnings (fst p, map py_lower (snd p)) = map fold_case (line_warnings p)" for p
    using line_warnings_lower [of "fst p" "snd p"] by simp
  have a: "line_notices (fst p, map py_lower (snd p)) = map fold_case (line_notices p)" for p
    using line_notices_lower [of "fst p" "snd p"] by simp
  show ?thesis
    by (simp add: parse_warnings_by_line split_nl_lower enumerate_from_map map_concat comp_def w a)
qed

text \<open>
  C10. The three passes of \<^verbatim>\<open>parse_warnings\<close> do not depend on letter case. For every
  line, the exclusion test gives the same answer on the line and on its lower-cased copy,
  and the auxiliary pass and the warning pass give the same records, up to the letter
  case of the texts they carry; so for every log, the lower-cased log yields the same
  two lists of records up to the letter case of their texts. In particular the line
  \<^verbatim>\<open>latex warning: x\<close> yields a Warning record, and the line \<^verbatim>\<open>LATEX FONT INFO: x\<close> is dropped.
\<close>

theorem classification_ignores_case:
  "should_exclude (map py_lower line_text) = should_exclude line_text
   \<and> records_of n (map py_lower line_text) auxiliary_patterns
       = map fold_case (records_of n line_text auxiliary_patterns)
   \<and> records_of n (map py_lower line_text) warning_patterns
       = map fold_case (records_of n line_text warning_patterns)
   \<and> parse_warnings (map py_lower log_content)
       = (map fold_case (fst (parse_warnings log_content)),
          map fold_case (snd (parse_warnings log_content)))
   \<and> parse_warnings lower_warning_log
       = ([\<lparr>line = 1, msg_text = ''x'', full_line = ''latex warning: x''\<rparr>], [])
   \<and> should_exclude upper_info_log
   \<and> parse_warnings upper_info_log = ([], [])"
proof -
  have "parse_warnings lower_warning_log
      = ([\<lparr>line = 1, msg_text = ''x'', full_line = ''latex warning: x''\<rparr>], [])"
    by code_simp
  moreover have "should_exclude upper_info_log"
    by code_simp
  moreover have "parse_warnings upper_info_log = ([], [])"
    by code_simp
  ultimately show ?thesis
    by (simp add: should_exclude_lower records_of_lower parse_warnings_lower)
qed

end
